theory Spec2Isabelle
  imports Complex_Main "HOL-Library.Word"
begin

section \<open>Fixed-point points and path operations (svgicon/path.go)\<close>

text \<open>
  \<^verbatim>\<open>fixed.Int26_6\<close> is a signed 32-bit integer counting 64ths of a unit;
  \<^verbatim>\<open>fixed.Point26_6\<close> is a struct of two of them.  The value of a coordinate is
  read with \<open>sint\<close>.
\<close>

type_synonym Int26_6 = "32 word"

record Point26_6 =
  X :: Int26_6
  Y :: Int26_6

text \<open>
  The five concrete types behind the interface \<^verbatim>\<open>Operation\<close>:
  \<^verbatim>\<open>OpMoveTo\<close> and \<^verbatim>\<open>OpLineTo\<close> are points, \<^verbatim>\<open>OpQuadTo\<close> is an array of two
  points, \<^verbatim>\<open>OpCubicTo\<close> an array of three, \<^verbatim>\<open>OpClose\<close> an empty struct.
\<close>

datatype Operation =
    OpMoveTo Point26_6
  | OpLineTo Point26_6
  | OpQuadTo Point26_6 Point26_6
  | OpCubicTo Point26_6 Point26_6 Point26_6
  | OpClose

type_synonym Path = "Operation list"

subsection \<open>Printing a coordinate: \<^verbatim>\<open>fmt.Sprintf("%4.3f", float32(x)/64)\<close>\<close>

text \<open>
  The conversion \<^verbatim>\<open>float32(x)\<close> of a 32-bit integer rounds to 24 significant bits,
  ties to even.  \<open>bitlen n\<close> is the number of binary digits of \<open>n\<close>;
  \<open>float32_of_int k\<close> is the integer that the resulting float holds.
\<close>

function bitlen :: "int \<Rightarrow> nat" where
  "bitlen n = (if n \<le> 0 then 0 else Suc (bitlen (n div 2)))"
  by pat_completeness auto
termination
  by (relation "measure nat") auto

declare bitlen.simps [simp del]

definition round_half_even :: "int \<Rightarrow> int \<Rightarrow> int" where
  \<comment> \<open>for \<open>0 \<le> n\<close> and \<open>0 < d\<close>: the integer nearest to \<open>n / d\<close>, a tie going to
     the even neighbour\<close>
  "round_half_even n d =
     (let q = n div d; r = n mod d
      in if 2 * r > d \<or> (2 * r = d \<and> odd q) then q + 1 else q)"

definition float32_of_int :: "int \<Rightarrow> int" where
  "float32_of_int k =
     (let n = \<bar>k\<bar>; s = bitlen n - 24
      in sgn k * (round_half_even n (2 ^ s) * 2 ^ s))"

text \<open>
  Dividing a float by 64 changes its exponent only, so \<^verbatim>\<open>float32(x)/64\<close> is exactly
  \<open>float32_of_int (sint x) / 64\<close>.  The verb \<^verbatim>\<open>%4.3f\<close> prints the exact decimal
  expansion of that value rounded to three fractional digits (ties to even), a minus
  sign before a negative value, and pads with spaces on the left up to width 4.
\<close>

definition digit_char :: "int \<Rightarrow> char" where
  "digit_char d = char_of (48 + d)"

function dec :: "int \<Rightarrow> string" where
  \<comment> \<open>the decimal digits of a natural number\<close>
  "dec n = (if n < 10 then [digit_char n] else dec (n div 10) @ [digit_char (n mod 10)])"
  by pat_completeness auto
termination
  by (relation "measure nat") auto

declare dec.simps [simp del]

definition frac3 :: "int \<Rightarrow> string" where
  \<comment> \<open>three fractional digits, leading zeros kept\<close>
  "frac3 n = [digit_char (n div 100 mod 10), digit_char (n div 10 mod 10), digit_char (n mod 10)]"

definition pad_left :: "nat \<Rightarrow> string \<Rightarrow> string" where
  "pad_left w s = replicate (w - length s) (CHR '' '') @ s"

definition fmt_4_3f :: "int \<Rightarrow> string" where
  \<comment> \<open>\<^verbatim>\<open>%4.3f\<close> of the float whose value is \<open>m / 64\<close>\<close>
  "fmt_4_3f m =
     (let t = round_half_even (\<bar>m\<bar> * 1000) 64
      in pad_left 4 ((if m < 0 then ''-'' else '''') @ dec (t div 1000) @ ''.'' @ frac3 (t mod 1000)))"

definition coord :: "Int26_6 \<Rightarrow> string" where
  "coord x = fmt_4_3f (float32_of_int (sint x))"

subsection \<open>\<^verbatim>\<open>Path.ToSVGPath\<close>\<close>

fun Join :: "string list \<Rightarrow> string \<Rightarrow> string" where
  \<comment> \<open>\<^verbatim>\<open>strings.Join\<close>\<close>
  "Join [] sep = []"
| "Join [x] sep = x"
| "Join (x # y # ys) sep = x @ sep @ Join (y # ys) sep"

fun chunk :: "Operation \<Rightarrow> string" where
  \<comment> \<open>the body of the loop of \<^verbatim>\<open>ToSVGPath\<close>: the string stored in \<^verbatim>\<open>chunks[i]\<close>\<close>
  "chunk (OpMoveTo p) = ''M'' @ coord (X p) @ '','' @ coord (Y p)"
| "chunk (OpLineTo p) = ''L'' @ coord (X p) @ '','' @ coord (Y p)"
| "chunk (OpQuadTo p0 p1) =
     ''Q'' @ coord (X p0) @ '','' @ coord (Y p0) @ '','' @ coord (X p1) @ '','' @ coord (Y p1)"
| "chunk (OpCubicTo p0 p1 p2) =
     ''C'' @ (''C'' @ coord (X p0) @ '','' @ coord (Y p0) @ '','' @ coord (X p1) @ '',''
       @ coord (Y p1) @ '','' @ coord (X p2) @ '','' @ coord (Y p2))"
| "chunk OpClose = ''Z''"

definition ToSVGPath :: "Path \<Rightarrow> string" where
  "ToSVGPath p = Join (map chunk p) '' ''"

subsection \<open>\<^verbatim>\<open>Path\<close> as an accumulator of operations\<close>

definition Path_Clear :: "Path \<Rightarrow> Path" where
  "Path_Clear p = take 0 p"

definition Path_Start :: "Point26_6 \<Rightarrow> Path \<Rightarrow> Path" where
  "Path_Start a p = p @ [OpMoveTo \<lparr>X = X a, Y = Y a\<rparr>]"

definition Path_Line :: "Point26_6 \<Rightarrow> Path \<Rightarrow> Path" where
  "Path_Line b p = p @ [OpLineTo \<lparr>X = X b, Y = Y b\<rparr>]"

definition Path_QuadBezier :: "Point26_6 \<Rightarrow> Point26_6 \<Rightarrow> Path \<Rightarrow> Path" where
  "Path_QuadBezier b c p = p @ [OpQuadTo b c]"

definition Path_CubeBezier :: "Point26_6 \<Rightarrow> Point26_6 \<Rightarrow> Point26_6 \<Rightarrow> Path \<Rightarrow> Path" where
  "Path_CubeBezier b c d p = p @ [OpCubicTo b c d]"

definition Path_Stop :: "bool \<Rightarrow> Path \<Rightarrow> Path" where
  "Path_Stop closeLoop p = (if closeLoop then p @ [OpClose] else p)"

subsection \<open>Replaying an operation on a drawer: \<^verbatim>\<open>drawTo\<close>\<close>

text \<open>
  \<^verbatim>\<open>drawTo(d Drawer, M Matrix2D)\<close> calls methods of the interface value \<open>d\<close>.  A drawer
  is modelled by the table of the methods that \<^verbatim>\<open>drawTo\<close> calls, each a transformer of
  the drawer's state \<open>'d\<close>.  The methods \<^verbatim>\<open>trMove\<close>, \<^verbatim>\<open>trLine\<close>, \<^verbatim>\<open>trQuad\<close> and
  \<^verbatim>\<open>trCubic\<close> of \<^verbatim>\<open>Matrix2D\<close> are defined in a file that is not among the sources;
  they are taken as parameters, over any representation \<open>'m\<close> of the matrix.
\<close>

record 'd Drawer =
  Start :: "Point26_6 \<Rightarrow> 'd \<Rightarrow> 'd"
  Line :: "Point26_6 \<Rightarrow> 'd \<Rightarrow> 'd"
  QuadBezier :: "Point26_6 \<Rightarrow> Point26_6 \<Rightarrow> 'd \<Rightarrow> 'd"
  CubeBezier :: "Point26_6 \<Rightarrow> Point26_6 \<Rightarrow> Point26_6 \<Rightarrow> 'd \<Rightarrow> 'd"
  Stop :: "bool \<Rightarrow> 'd \<Rightarrow> 'd"

record 'm Matrix2D_methods =
  trMove :: "'m \<Rightarrow> Point26_6 \<Rightarrow> Point26_6"
  trLine :: "'m \<Rightarrow> Point26_6 \<Rightarrow> Point26_6"
  trQuad :: "'m \<Rightarrow> Point26_6 \<times> Point26_6 \<Rightarrow> Point26_6 \<times> Point26_6"
  trCubic :: "'m \<Rightarrow> Point26_6 \<times> Point26_6 \<times> Point26_6 \<Rightarrow> Point26_6 \<times> Point26_6 \<times> Point26_6"

fun drawTo :: "'d Drawer \<Rightarrow> 'm Matrix2D_methods \<Rightarrow> Operation \<Rightarrow> 'm \<Rightarrow> 'd \<Rightarrow> 'd" where
  "drawTo D T (OpMoveTo p) M d = Start D (trMove T M p) (Stop D False d)"
| "drawTo D T (OpLineTo p) M d = Line D (trLine T M p) d"
| "drawTo D T (OpQuadTo p0 p1) M d =
     (case trQuad T M (p0, p1) of (b, c) \<Rightarrow> QuadBezier D b c d)"
| "drawTo D T (OpCubicTo p0 p1 p2) M d =
     (case trCubic T M (p0, p1, p2) of (b, c, d') \<Rightarrow> CubeBezier D b c d' d)"
| "drawTo D T OpClose M d = Stop D True d"

text \<open>
  Two drawers.  \<open>Path_Drawer\<close> is \<^verbatim>\<open>*Path\<close> itself, whose methods are the accumulator
  functions above.  \<open>Recorder\<close> keeps the log of the method calls it receives, which
  makes the calls that \<^verbatim>\<open>drawTo\<close> issues, and their order, a value.
\<close>

definition Path_Drawer :: "Path Drawer" where
  "Path_Drawer = \<lparr>Start = Path_Start, Line = Path_Line, QuadBezier = Path_QuadBezier,
     CubeBezier = Path_CubeBezier, Stop = Path_Stop\<rparr>"

datatype DrawerCall =
    CallStart Point26_6
  | CallLine Point26_6
  | CallQuadBezier Point26_6 Point26_6
  | CallCubeBezier Point26_6 Point26_6 Point26_6
  | CallStop bool

definition Recorder :: "DrawerCall list Drawer" where
  "Recorder = \<lparr>Start = (\<lambda>a cs. cs @ [CallStart a]), Line = (\<lambda>b cs. cs @ [CallLine b]),
     QuadBezier = (\<lambda>b c cs. cs @ [CallQuadBezier b c]),
     CubeBezier = (\<lambda>b c d cs. cs @ [CallCubeBezier b c d]),
     Stop = (\<lambda>closeLoop cs. cs @ [CallStop closeLoop])\<rparr>"

fun invoke :: "'d Drawer \<Rightarrow> 'd \<Rightarrow> DrawerCall \<Rightarrow> 'd" where
  "invoke D d (CallStart a) = Start D a d"
| "invoke D d (CallLine b) = Line D b d"
| "invoke D d (CallQuadBezier b c) = QuadBezier D b c d"
| "invoke D d (CallCubeBezier b c e) = CubeBezier D b c e d"
| "invoke D d (CallStop closeLoop) = Stop D closeLoop d"

section \<open>Reading an icon from a token stream (svgicon/svgicon.go)\<close>

subsection \<open>Tokens and errors\<close>

text \<open>
  The tokens of \<^verbatim>\<open>encoding/xml\<close>: \<^verbatim>\<open>xml.Name\<close>, \<^verbatim>\<open>xml.Attr\<close> and the token types
  that \<^verbatim>\<open>Decoder.Token\<close> returns.  An \<^verbatim>\<open>error\<close> value is either the sentinel
  \<^verbatim>\<open>io.EOF\<close> or some other error, identified by its message.
\<close>

datatype Name = Name (Space: string) (Local: string)

datatype Attr = Attr (AttrName: Name) (Value: string)

datatype Token =
    StartElement Name "Attr list"
  | EndElement Name
  | CharData string
  | Comment string
  | ProcInst string string
  | Directive string

datatype error = io_EOF | Error string

text \<open>
  A decoder is the sequence of results that successive calls of \<^verbatim>\<open>decoder.Token()\<close>
  return, each a token (\<open>Inr\<close>) or a non-nil error (\<open>Inl\<close>); a decoder whose sequence
  is used up is at the end of its input and returns \<^verbatim>\<open>io.EOF\<close>.
\<close>

type_synonym decoder = "(error + Token) list"

datatype ErrorMode = IgnoreErrorMode | StrictErrorMode | WarnErrorMode

subsection \<open>The icon and the cursor\<close>

text \<open>
  The declarations of \<^verbatim>\<open>SvgIcon\<close>, \<^verbatim>\<open>iconCursor\<close>, \<^verbatim>\<open>definition\<close>,
  \<^verbatim>\<open>PathStyle\<close>, \<^verbatim>\<open>Gradient\<close> and \<^verbatim>\<open>Matrix2D\<close> are in files that are not among
  the sources.  The records below have the fields that the sources read or write:
  \<^verbatim>\<open>ReadIconStream\<close> for the icon and the cursor, the raster backend for the gradient
  (all of its fields are read by \<^verbatim>\<open>toRasterxGradient\<close>; its field \<^verbatim>\<open>Bounds\<close> is
  \<open>GBounds\<close> here and the fields \<^verbatim>\<open>X\<close>, \<^verbatim>\<open>Y\<close>, \<^verbatim>\<open>W\<close>, \<^verbatim>\<open>H\<close> of the bounds are
  \<open>BX\<close>, \<open>BY\<close>, \<open>BW\<close>, \<open>BH\<close>), the view box and the matrix (converted to a
  \<^verbatim>\<open>rasterx.Matrix2D\<close>, a struct of six floats).  The style of a path, the stop of a
  gradient and its spread method are kept abstract, as the type variables \<open>'s\<close>,
  \<open>'stop\<close> and \<open>'spread\<close>.  A \<^verbatim>\<open>float64\<close> that is only stored and passed on is a
  \<open>real\<close>.  The direction of a gradient is a value of an interface, \<open>None\<close> when nil.

  Two fields are not named by the sources.  Modelled from the spec: the display list of
  the icon, \<open>SVGPaths\<close>, each item a resolved style and a path; and \<open>Attrs\<close>, the
  attributes of a captured element, which stands for what a definition holds besides
  \<^verbatim>\<open>ID\<close> and \<^verbatim>\<open>Tag\<close>.  The record of a definition is named \<open>Definition\<close>,
  \<open>definition\<close> being a keyword.
\<close>

datatype Matrix2D = Matrix2D real real real real real real

definition Identity :: Matrix2D where
  "Identity = Matrix2D 1 0 0 1 0 0"

record Bounds =
  BX :: real
  BY :: real
  BW :: real
  BH :: real

datatype Direction =
    Linear real real real real
  | Radial real real real real real real

datatype GradientUnits = ObjectBoundingBox | UserSpaceOnUse

record ('stop, 'spread) Gradient =
  Direction :: "Direction option"
  Stops :: "'stop list"
  GBounds :: Bounds
  Matrix :: Matrix2D
  Spread :: 'spread
  Units :: GradientUnits

record Definition =
  ID :: string
  Tag :: string
  Attrs :: "Attr list"

record ('s, 'stop, 'spread) SvgIcon =
  ViewBox :: Bounds
  Titles :: "string list"
  Descriptions :: "string list"
  grads :: "string \<rightharpoonup> ('stop, 'spread) Gradient"
  defs :: "string \<rightharpoonup> Definition list"
  SVGPaths :: "('s \<times> Path) list"
  Transform :: Matrix2D

record ('s, 'stop, 'spread) iconCursor =
  styleStack :: "'s list"
  icon :: "('s, 'stop, 'spread) SvgIcon"
  errorMode :: ErrorMode
  inTitleText :: bool
  inDescText :: bool
  inGrad :: bool
  inDefs :: bool
  currentDef :: "Definition list"

text \<open>
  A run-time panic of Go (an index or a slice bound out of range, a nil dereference) ends
  the call without a result; in the model it is a value of its own, on the left of a sum.
  A call of a method that returns an \<^verbatim>\<open>error\<close> yields the cursor as the method left it
  and the error, if any.
\<close>

datatype panic = IndexOutOfRange | SliceBoundsOutOfRange | NilDereference

type_synonym ('s, 'stop, 'spread) called =
  "('s, 'stop, 'spread) iconCursor \<times> error option"

subsection \<open>The methods of the cursor\<close>

text \<open>
  \<^verbatim>\<open>iconCursor.pushStyle\<close> and \<^verbatim>\<open>iconCursor.readStartElement\<close> are defined in a file
  that is not among the sources.  They are parameters of the model of the loop: \<open>ps\<close>
  is a function from the attributes and the cursor to a panic or the cursor the method
  leaves and the error it returns; \<open>rse\<close> is a function from the element and the cursor
  to the cursor the method leaves and the error it returns.
\<close>

type_synonym ('s, 'stop, 'spread) pushStyle =
  "Attr list \<Rightarrow> ('s, 'stop, 'spread) iconCursor \<Rightarrow> panic + ('s, 'stop, 'spread) called"

type_synonym ('s, 'stop, 'spread) readStartElement =
  "Name \<Rightarrow> Attr list \<Rightarrow> ('s, 'stop, 'spread) iconCursor \<Rightarrow> ('s, 'stop, 'spread) called"

text \<open>
  Modelled from the spec: \<^verbatim>\<open>iconCursor.pushStyle\<close>, whose code is not among the sources.
  The spec has it parse the recognized style attributes of the element, overlay them on a
  clone of the parent style, the top of the stack, and push the result: one frame for
  every start tag; a malformed value is an error, which the error mode suppresses or not.
  The comment at the call in \<^verbatim>\<open>ReadIconStream\<close> says the same.  The overlay itself is
  the parameter \<open>overlay\<close>.  With no style on the stack there is no parent to read, an
  index out of range.
\<close>

definition pushStyle ::
  "(ErrorMode \<Rightarrow> 's \<Rightarrow> Attr list \<Rightarrow> error + 's) \<Rightarrow> ('s, 'stop, 'spread) pushStyle" where
  "pushStyle overlay attrs c =
     (case styleStack c of
        [] \<Rightarrow> Inl IndexOutOfRange
      | _ # _ \<Rightarrow>
          (case overlay (errorMode c) (last (styleStack c)) attrs of
             Inl err \<Rightarrow> Inr (c, Some err)
           | Inr curStyle \<Rightarrow> Inr (c\<lparr>styleStack := styleStack c @ [curStyle]\<rparr>, None)))"

subsection \<open>One iteration of the loop of \<^verbatim>\<open>ReadIconStream\<close>\<close>

datatype ('s, 'stop, 'spread) outcome =
    Continue "('s, 'stop, 'spread) iconCursor"
  | Abort "('s, 'stop, 'spread) iconCursor" error
  | Panicked panic

definition startElement ::
  "('s, 'stop, 'spread) pushStyle \<Rightarrow> ('s, 'stop, 'spread) readStartElement
    \<Rightarrow> Name \<Rightarrow> Attr list \<Rightarrow> ('s, 'stop, 'spread) iconCursor \<Rightarrow> ('s, 'stop, 'spread) outcome" where
  "startElement ps rse name attrs c =
     (case ps attrs c of
        Inl p \<Rightarrow> Panicked p
      | Inr (c1, Some err) \<Rightarrow> Abort c1 err
      | Inr (c1, None) \<Rightarrow>
          (case rse name attrs c1 of
             (c2, Some err) \<Rightarrow> Abort c2 err
           | (c2, None) \<Rightarrow> Continue c2))"

definition endSwitch ::
  "string \<Rightarrow> ('s, 'stop, 'spread) iconCursor \<Rightarrow> ('s, 'stop, 'spread) iconCursor" where
  \<comment> \<open>the \<^verbatim>\<open>switch se.Name.Local\<close> of the end-element case\<close>
  "endSwitch local c =
     (if local = ''g'' then
        (if inDefs c
         then c\<lparr>currentDef := currentDef c @ [\<lparr>ID = '''', Tag = ''endg'', Attrs = []\<rparr>]\<rparr>
         else c)
      else if local = ''title'' then c\<lparr>inTitleText := False\<rparr>
      else if local = ''desc'' then c\<lparr>inDescText := False\<rparr>
      else if local = ''defs'' then
        (case currentDef c of
           [] \<Rightarrow> c
         | d # _ \<Rightarrow> c\<lparr>icon := (icon c)\<lparr>defs := (defs (icon c))(ID d \<mapsto> currentDef c)\<rparr>,
                      currentDef := []\<rparr>)
        \<lparr>inDefs := False\<rparr>
      else if local = ''radialGradient'' \<or> local = ''linearGradient'' then c\<lparr>inGrad := False\<rparr>
      else c)"

definition endElement ::
  "Name \<Rightarrow> ('s, 'stop, 'spread) iconCursor \<Rightarrow> ('s, 'stop, 'spread) outcome" where
  "endElement name c =
     (case styleStack c of
        [] \<Rightarrow> Panicked SliceBoundsOutOfRange
      | _ # _ \<Rightarrow> Continue (endSwitch (Local name) (c\<lparr>styleStack := butlast (styleStack c)\<rparr>)))"

definition appendLast :: "string list \<Rightarrow> string \<Rightarrow> panic + string list" where
  \<comment> \<open>\<^verbatim>\<open>xs[len(xs)-1] += s\<close>\<close>
  "appendLast xs s =
     (case xs of
        [] \<Rightarrow> Inl IndexOutOfRange
      | _ # _ \<Rightarrow> Inr (xs[length xs - 1 := xs ! (length xs - 1) @ s]))"

definition charData ::
  "string \<Rightarrow> ('s, 'stop, 'spread) iconCursor \<Rightarrow> ('s, 'stop, 'spread) outcome" where
  "charData s c =
     (case (if inTitleText c
            then (case appendLast (Titles (icon c)) s of
                    Inl p \<Rightarrow> Inl p
                  | Inr ts \<Rightarrow> Inr (c\<lparr>icon := (icon c)\<lparr>Titles := ts\<rparr>\<rparr>))
            else Inr c) of
        Inl p \<Rightarrow> Panicked p
      | Inr c1 \<Rightarrow>
          (if inDescText c1
           then (case appendLast (Descriptions (icon c1)) s of
                   Inl p \<Rightarrow> Panicked p
                 | Inr ds \<Rightarrow> Continue (c1\<lparr>icon := (icon c1)\<lparr>Descriptions := ds\<rparr>\<rparr>))
           else Continue c1))"

fun step ::
  "('s, 'stop, 'spread) pushStyle \<Rightarrow> ('s, 'stop, 'spread) readStartElement
    \<Rightarrow> ('s, 'stop, 'spread) iconCursor \<Rightarrow> Token \<Rightarrow> ('s, 'stop, 'spread) outcome" where
  "step ps rse c (StartElement name attrs) = startElement ps rse name attrs c"
| "step ps rse c (EndElement name) = endElement name c"
| "step ps rse c (CharData s) = charData s c"
| "step ps rse c _ = Continue c"

subsection \<open>\<^verbatim>\<open>ReadIconStream\<close> and \<^verbatim>\<open>ReadIcon\<close>\<close>

text \<open>
  The result of \<^verbatim>\<open>ReadIconStream\<close> is the pair of a pointer to the icon, \<open>None\<close> for
  \<^verbatim>\<open>nil\<close>, and an error, \<open>None\<close> for \<^verbatim>\<open>nil\<close>.  The local variable \<^verbatim>\<open>icon\<close> and the
  field \<^verbatim>\<open>cursor.icon\<close> point to the same icon, the field \<open>icon\<close> of the cursor here.
  Fields that the composite literals do not mention hold their zero values.
\<close>

type_synonym ('s, 'stop, 'spread) returned =
  "('s, 'stop, 'spread) SvgIcon option \<times> error option"

fun loop ::
  "('s, 'stop, 'spread) pushStyle \<Rightarrow> ('s, 'stop, 'spread) readStartElement
    \<Rightarrow> ('s, 'stop, 'spread) iconCursor \<Rightarrow> decoder \<Rightarrow> panic + ('s, 'stop, 'spread) returned" where
  "loop ps rse c [] = Inr (Some (icon c), None)"
| "loop ps rse c (Inl err # rest) =
     (if err = io_EOF then Inr (Some (icon c), None) else Inr (Some (icon c), Some err))"
| "loop ps rse c (Inr t # rest) =
     (case step ps rse c t of
        Continue c' \<Rightarrow> loop ps rse c' rest
      | Abort c' err \<Rightarrow> Inr (Some (icon c'), Some err)
      | Panicked p \<Rightarrow> Inl p)"

definition newIcon :: "('s, 'stop, 'spread) SvgIcon" where
  "newIcon = \<lparr>ViewBox = \<lparr>BX = 0, BY = 0, BW = 0, BH = 0\<rparr>, Titles = [], Descriptions = [],
     grads = Map.empty, defs = Map.empty, SVGPaths = [], Transform = Identity\<rparr>"

definition newCursor :: "'s \<Rightarrow> ErrorMode \<Rightarrow> ('s, 'stop, 'spread) iconCursor" where
  "newCursor DefaultStyle errMode = \<lparr>styleStack = [DefaultStyle], icon = newIcon,
     errorMode = errMode, inTitleText = False, inDescText = False, inGrad = False,
     inDefs = False, currentDef = []\<rparr>"

definition ReadIconStream ::
  "('s, 'stop, 'spread) pushStyle \<Rightarrow> ('s, 'stop, 'spread) readStartElement
    \<Rightarrow> 's \<Rightarrow> decoder \<Rightarrow> ErrorMode \<Rightarrow> panic + ('s, 'stop, 'spread) returned" where
  "ReadIconStream ps rse DefaultStyle stream errMode =
     loop ps rse (newCursor DefaultStyle errMode) stream"

text \<open>
  \<^verbatim>\<open>ReadIcon\<close> opens the named file.  The file system is the function \<open>fs\<close> that gives,
  for a name, the error of \<^verbatim>\<open>os.Open\<close> or the decoder over the content of the file.
\<close>

definition ReadIcon ::
  "('s, 'stop, 'spread) pushStyle \<Rightarrow> ('s, 'stop, 'spread) readStartElement
    \<Rightarrow> 's \<Rightarrow> (string \<Rightarrow> error + decoder) \<Rightarrow> string \<Rightarrow> ErrorMode
    \<Rightarrow> panic + ('s, 'stop, 'spread) returned" where
  "ReadIcon ps rse DefaultStyle fs iconFile errMode =
     (case fs iconFile of
        Inl errf \<Rightarrow> Inr (None, Some errf)
      | Inr fin \<Rightarrow> ReadIconStream ps rse DefaultStyle fin errMode)"

subsection \<open>Notions used to state the properties of the loop\<close>

text \<open>
  \<open>run\<close> is the cursor after the iterations of the loop over a list of tokens;
  \<open>tokens_of\<close> is the list of tokens a decoder returns before its first error;
  \<open>nesting\<close> counts the start elements of a list of tokens minus its end elements;
  \<open>well_nested d\<close> holds of the lists in which no end element comes without an open
  element, \<open>d\<close> elements being open at the start.  With its default setting
  (\<^verbatim>\<open>Strict\<close>), the decoder of \<^verbatim>\<open>encoding/xml\<close> returns an error instead of an end
  element that matches no open start element, so what it returns is \<open>well_nested 0\<close>.
\<close>

fun run ::
  "('s, 'stop, 'spread) pushStyle \<Rightarrow> ('s, 'stop, 'spread) readStartElement
    \<Rightarrow> ('s, 'stop, 'spread) iconCursor \<Rightarrow> Token list \<Rightarrow> ('s, 'stop, 'spread) outcome" where
  "run ps rse c [] = Continue c"
| "run ps rse c (t # ts) =
     (case step ps rse c t of
        Continue c' \<Rightarrow> run ps rse c' ts
      | Abort c' err \<Rightarrow> Abort c' err
      | Panicked p \<Rightarrow> Panicked p)"

fun tokens_of :: "decoder \<Rightarrow> Token list" where
  "tokens_of [] = []"
| "tokens_of (Inl err # rest) = []"
| "tokens_of (Inr t # rest) = t # tokens_of rest"

fun nesting :: "Token list \<Rightarrow> int" where
  "nesting [] = 0"
| "nesting (StartElement name attrs # ts) = nesting ts + 1"
| "nesting (EndElement name # ts) = nesting ts - 1"
| "nesting (t # ts) = nesting ts"

fun well_nested :: "nat \<Rightarrow> Token list \<Rightarrow> bool" where
  "well_nested d [] = True"
| "well_nested d (StartElement name attrs # ts) = well_nested (Suc d) ts"
| "well_nested d (EndElement name # ts) = (0 < d \<and> well_nested (d - 1) ts)"
| "well_nested d (t # ts) = well_nested d ts"

text \<open>
  Modelled from the spec: the part of \<^verbatim>\<open>readStartElement\<close> for the metadata and
  definitions elements, used where a property is evaluated on an example.  The spec
  has \<open>title\<close> and \<open>desc\<close> open a new text entry and set the capture flag, \<open>defs\<close>
  set the flag of the definitions section, \<open>g\<close> open a group; an element taken as
  unrecognized is an error in the strict mode and is skipped in the other two.
\<close>

definition metaStartElement :: "('s, 'stop, 'spread) readStartElement" where
  "metaStartElement name attrs c =
     (if Local name = ''title'' then
        (c\<lparr>icon := (icon c)\<lparr>Titles := Titles (icon c) @ ['''']\<rparr>, inTitleText := True\<rparr>, None)
      else if Local name = ''desc'' then
        (c\<lparr>icon := (icon c)\<lparr>Descriptions := Descriptions (icon c) @ ['''']\<rparr>,
           inDescText := True\<rparr>, None)
      else if Local name = ''defs'' then (c\<lparr>inDefs := True\<rparr>, None)
      else if Local name = ''svg'' \<or> Local name = ''g'' then (c, None)
      else if errorMode c = StrictErrorMode
        then (c, Some (Error (''Cannot process svg element '' @ Local name)))
      else (c, None))"

text \<open>
  What the properties of the loop ask of the two methods.  \<open>keeps_depth rse\<close>:
  \<^verbatim>\<open>readStartElement\<close> returns with as many styles on the stack as it found.
  \<open>text_ok c\<close>: a capture flag is set only when there is an entry to add the text to;
  \<open>keeps_text_ok rse\<close>: \<^verbatim>\<open>readStartElement\<close> keeps it so.  \<open>pushes_one_frame ps\<close>:
  on a cursor with a style on its stack, \<^verbatim>\<open>pushStyle\<close> does not panic, leaves one
  style more on the stack when it returns no error, and keeps \<open>text_ok\<close>.
\<close>

definition keeps_depth :: "('s, 'stop, 'spread) readStartElement \<Rightarrow> bool" where
  "keeps_depth rse =
     (\<forall>name attrs c. length (styleStack (fst (rse name attrs c))) = length (styleStack c))"

definition text_ok :: "('s, 'stop, 'spread) iconCursor \<Rightarrow> bool" where
  "text_ok c = ((inTitleText c \<longrightarrow> Titles (icon c) \<noteq> [])
              \<and> (inDescText c \<longrightarrow> Descriptions (icon c) \<noteq> []))"

definition keeps_text_ok :: "('s, 'stop, 'spread) readStartElement \<Rightarrow> bool" where
  "keeps_text_ok rse = (\<forall>name attrs c. text_ok c \<longrightarrow> text_ok (fst (rse name attrs c)))"

definition pushes_one_frame :: "('s, 'stop, 'spread) pushStyle \<Rightarrow> bool" where
  "pushes_one_frame ps =
     (\<forall>attrs c. styleStack c \<noteq> [] \<longrightarrow>
        (\<exists>c1 e. ps attrs c = Inr (c1, e)
           \<and> (e = None \<longrightarrow> length (styleStack c1) = Suc (length (styleStack c)))
           \<and> (text_ok c \<longrightarrow> text_ok c1)))"

definition plainOverlay :: "ErrorMode \<Rightarrow> nat \<Rightarrow> Attr list \<Rightarrow> error + nat" where
  \<comment> \<open>an overlay for the examples: a style is a number, an element's style is its
     parent's plus the number of its attributes\<close>
  "plainOverlay errMode parent attrs = Inr (parent + length attrs)"

section \<open>The raster backend (svgraster)\<close>

subsection \<open>\<^verbatim>\<open>Driver.SetupDrawers\<close>\<close>

text \<open>
  A pointer to a \<^verbatim>\<open>rasterx.Dasher\<close> is \<open>None\<close> for \<^verbatim>\<open>nil\<close> or the address of the
  dasher.  A \<^verbatim>\<open>rasterx.Dasher\<close> embeds a \<^verbatim>\<open>Stroker\<close>, which embeds a \<^verbatim>\<open>Filler\<close>;
  \<^verbatim>\<open>&rd.dasher.Filler\<close> is the address of that field of the dasher, and evaluating it
  through a nil pointer panics.  A value of the interface \<^verbatim>\<open>svgicon.Filler\<close> or
  \<^verbatim>\<open>svgicon.Stroker\<close> is \<open>None\<close> for the nil interface or the struct it holds.
\<close>

record Driver =
  dasher :: "nat option"

datatype Filler_pointer = Filler_of_Dasher nat

datatype filler = filler Filler_pointer

datatype stroker = stroker "nat option"

definition NewDriver :: "(int \<Rightarrow> int \<Rightarrow> 'scanner \<Rightarrow> nat) \<Rightarrow> int \<Rightarrow> int \<Rightarrow> 'scanner \<Rightarrow> Driver" where
  \<comment> \<open>\<^verbatim>\<open>rasterx.NewDasher\<close> is the parameter \<open>NewDasher\<close>: it gives the address of the
     dasher it allocates, never nil\<close>
  "NewDriver NewDasher width height scanner = \<lparr>dasher = Some (NewDasher width height scanner)\<rparr>"

definition SetupDrawers :: "Driver \<Rightarrow> bool \<Rightarrow> bool \<Rightarrow> panic + (filler option \<times> stroker option)" where
  "SetupDrawers rd willFill willStroke =
     (case (if willFill
            then (case dasher rd of
                    None \<Rightarrow> Inl NilDereference
                  | Some a \<Rightarrow> Inr (Some (filler (Filler_of_Dasher a))))
            else Inr None) of
        Inl p \<Rightarrow> Inl p
      | Inr f \<Rightarrow> Inr (f, if willStroke then Some (stroker (dasher rd)) else None))"

subsection \<open>\<^verbatim>\<open>setColorFromPattern\<close>\<close>

text \<open>
  \<^verbatim>\<open>fixed.Rectangle26_6\<close> has the fields \<^verbatim>\<open>Min\<close> and \<^verbatim>\<open>Max\<close>, here \<open>MinPt\<close> and
  \<open>MaxPt\<close>.  A pattern is a plain color, a gradient, or the nil interface.  The
  package \<^verbatim>\<open>rasterx\<close> is a library outside the repository: a scanner is the table of
  the two methods called, and the values that \<^verbatim>\<open>rasterx.ApplyOpacity\<close> and
  \<^verbatim>\<open>Gradient.GetColorFunction\<close> return are kept as terms.  The conversions of a stop,
  a spread method and the units to the \<^verbatim>\<open>rasterx\<close> types of the same representation
  change nothing.

  \<^verbatim>\<open>float64(x)/64\<close> of a 32-bit integer and the difference of two such values are exact
  in 64-bit floating point (53 bits of mantissa), so they are the same operations on
  \<open>real\<close>.
\<close>

record Rectangle26_6 =
  MinPt :: Point26_6
  MaxPt :: Point26_6

datatype ('color, 'stop, 'spread) Pattern =
    PlainColor 'color
  | GradientPattern "('stop, 'spread) Gradient"
  | NilPattern

record ('stop, 'spread) rasterx_Gradient =
  rx_Points :: "real list"
  rx_Stops :: "'stop list"
  rx_Bounds :: Bounds
  rx_Matrix :: Matrix2D
  rx_Spread :: 'spread
  rx_Units :: GradientUnits
  rx_IsRadial :: bool

datatype ('color, 'stop, 'spread) rasterx_color =
    ApplyOpacity 'color real
  | GetColorFunction "('stop, 'spread) rasterx_Gradient" real

record ('sc, 'color, 'stop, 'spread) Scanner =
  SetColor :: "('color, 'stop, 'spread) rasterx_color \<Rightarrow> 'sc \<Rightarrow> 'sc"
  GetPathExtent :: "'sc \<Rightarrow> Rectangle26_6"

definition toRasterxGradient :: "('stop, 'spread) Gradient \<Rightarrow> ('stop, 'spread) rasterx_Gradient" where
  "toRasterxGradient grad =
     \<lparr>rx_Points =
        (case Direction grad of
           Some (Linear d0 d1 d2 d3) \<Rightarrow> [d0, d1, d2, d3, 0]
         | Some (Radial d0 d1 d2 d3 d4 d5) \<Rightarrow> [d0, d1, d2, d3, d4]
         | None \<Rightarrow> [0, 0, 0, 0, 0]),
      rx_Stops = Stops grad,
      rx_Bounds = GBounds grad,
      rx_Matrix = Matrix grad,
      rx_Spread = Spread grad,
      rx_Units = Units grad,
      rx_IsRadial =
        (case Direction grad of
           Some (Linear d0 d1 d2 d3) \<Rightarrow> False
         | Some (Radial d0 d1 d2 d3 d4 d5) \<Rightarrow> True
         | None \<Rightarrow> False)\<rparr>"

definition to_float64 :: "Int26_6 \<Rightarrow> real" where
  \<comment> \<open>\<^verbatim>\<open>float64(x)\<close>\<close>
  "to_float64 x = real_of_int (sint x)"

definition setColorFromPattern ::
  "('sc, 'color, 'stop, 'spread) Scanner \<Rightarrow> ('color, 'stop, 'spread) Pattern \<Rightarrow> real
    \<Rightarrow> 'sc \<Rightarrow> 'sc" where
  "setColorFromPattern S color opacity scanner =
     (case color of
        PlainColor color \<Rightarrow> SetColor S (ApplyOpacity color opacity) scanner
      | GradientPattern color \<Rightarrow>
          (let color =
             (if Units color = ObjectBoundingBox then
                (let fRect = GetPathExtent S scanner;
                     mnx = to_float64 (X (MinPt fRect)) / 64;
                     mny = to_float64 (Y (MinPt fRect)) / 64;
                     mxx = to_float64 (X (MaxPt fRect)) / 64;
                     mxy = to_float64 (Y (MaxPt fRect)) / 64
                 in color\<lparr>GBounds := \<lparr>BX = mnx, BY = mny, BW = mxx - mnx, BH = mxy - mny\<rparr>\<rparr>)
              else color);
               rasterxGradient = toRasterxGradient color
           in SetColor S (GetColorFunction rasterxGradient opacity) scanner)
      | NilPattern \<Rightarrow> scanner)"

definition extentBounds :: "Rectangle26_6 \<Rightarrow> Bounds" where
  \<comment> \<open>the bounds of an extent: its minimum corner and its side lengths, each divided by 64\<close>
  "extentBounds r =
     \<lparr>BX = real_of_int (sint (X (MinPt r))) / 64,
      BY = real_of_int (sint (Y (MinPt r))) / 64,
      BW = real_of_int (sint (X (MaxPt r)) - sint (X (MinPt r))) / 64,
      BH = real_of_int (sint (Y (MaxPt r)) - sint (Y (MinPt r))) / 64\<rparr>"

section \<open>Examples\<close>

text \<open>
  The values on which the properties below are evaluated: the tokens of
  \<^verbatim>\<open><svg viewBox="0 0 10 10"><title>hi</title></svg>\<close>, in two parts; a file system
  with the one file \<^verbatim>\<open>icon.svg\<close>; a captured definition; a linear gradient relative to
  the bounding box; a scanner that holds a path extent and the color last set; the
  extent from (10, 10) to (20, 30).
\<close>

definition exampleTokens :: "Token list" where
  "exampleTokens =
     [StartElement (Name [] ''svg'') [Attr (Name [] ''viewBox'') ''0 0 10 10''],
      StartElement (Name [] ''title'') [],
      CharData ''hi'']"

definition exampleClosing :: "Token list" where
  "exampleClosing = [EndElement (Name [] ''title''), EndElement (Name [] ''svg'')]"

definition exampleFS :: "string \<Rightarrow> error + decoder" where
  "exampleFS iconFile =
     (if iconFile = ''icon.svg'' then Inr (map Inr (exampleTokens @ exampleClosing))
      else Inl (Error ''open: no such file or directory''))"

definition exampleDef :: Definition where
  "exampleDef = \<lparr>ID = ''arrow'', Tag = ''path'', Attrs = [Attr (Name [] ''id'') ''arrow'']\<rparr>"

definition exampleGradient :: "(unit, unit) Gradient" where
  "exampleGradient = \<lparr>Direction = Some (Linear 0 0 1 0), Stops = [],
     GBounds = \<lparr>BX = 0, BY = 0, BW = 1, BH = 1\<rparr>, Matrix = Identity, Spread = (),
     Units = ObjectBoundingBox\<rparr>"

definition exampleScanner ::
  "(Rectangle26_6 \<times> (unit, unit, unit) rasterx_color option, unit, unit, unit) Scanner" where
  "exampleScanner = \<lparr>SetColor = (\<lambda>col sc. (fst sc, Some col)), GetPathExtent = fst\<rparr>"

definition exampleExtent :: Rectangle26_6 where
  "exampleExtent = \<lparr>MinPt = \<lparr>X = 640, Y = 640\<rparr>, MaxPt = \<lparr>X = 1280, Y = 1920\<rparr>\<rparr>"

section \<open>Properties of the path model\<close>

lemma chunk_OpCubicTo_letters: "take 2 (chunk (OpCubicTo p0 p1 p2)) = ''CC''"
  by simp

text \<open>
  C1.  \<^verbatim>\<open>ToSVGPath\<close> is meant to print a cubic segment as one letter \<open>C\<close> and six
  coordinates, as it prints \<open>M\<close>, \<open>L\<close> and \<open>Q\<close>.  The branch for \<^verbatim>\<open>OpCubicTo\<close>
  concatenates \<^verbatim>\<open>"C"\<close> with a format string that itself starts with \<open>C\<close>, so the
  letter is printed twice: the path holding the single cubic segment with control points
  (0,0), (1,1) and end point (2,2) is printed with the prefix \<open>CC\<close>.
\<close>

theorem ToSVGPath_cubic_letter_twice:
  "ToSVGPath [OpCubicTo \<lparr>X = 0, Y = 0\<rparr> \<lparr>X = 64, Y = 64\<rparr> \<lparr>X = 128, Y = 128\<rparr>]
     = ''CC0.000,0.000,1.000,1.000,2.000,2.000''"
  by code_simp

text \<open>
  C6.  Replaying \<^verbatim>\<open>OpMoveTo\<close> calls \<^verbatim>\<open>Stop(false)\<close> and then \<^verbatim>\<open>Start\<close> with the
  transformed point, and nothing else; replaying \<^verbatim>\<open>OpClose\<close> calls \<^verbatim>\<open>Stop(true)\<close> and
  nothing else.  This is the log of the recording drawer, and on every drawer \<open>D\<close> the
  effect is that of these calls in this order.  On a \<^verbatim>\<open>Path\<close> used as the drawer, the
  move adds the \<^verbatim>\<open>OpMoveTo\<close> alone: no closing operation is recorded.
\<close>

theorem drawTo_MoveTo_Close_calls:
  "drawTo Recorder T (OpMoveTo p) M cs = cs @ [CallStop False, CallStart (trMove T M p)]
   \<and> drawTo Recorder T OpClose M cs = cs @ [CallStop True]
   \<and> drawTo D T (OpMoveTo p) M d = foldl (invoke D) d [CallStop False, CallStart (trMove T M p)]
   \<and> drawTo D T OpClose M d = foldl (invoke D) d [CallStop True]
   \<and> drawTo Path_Drawer T (OpMoveTo p) M path = path @ [OpMoveTo (trMove T M p)]"
  by (simp add: Recorder_def Path_Drawer_def Path_Start_def Path_Stop_def)

text \<open>
  C10.  \<^verbatim>\<open>Stop(false)\<close> leaves the path as it is; \<^verbatim>\<open>Start\<close>, \<^verbatim>\<open>Line\<close>,
  \<^verbatim>\<open>QuadBezier\<close>, \<^verbatim>\<open>CubeBezier\<close> and \<^verbatim>\<open>Stop(true)\<close> each put one operation, holding
  the points given, after the operations already recorded, which stay as they were;
  \<^verbatim>\<open>Clear\<close> leaves the empty path.
\<close>

theorem Path_append_only:
  "Path_Stop False p = p
   \<and> Path_Start a p = p @ [OpMoveTo a]
   \<and> Path_Line b p = p @ [OpLineTo b]
   \<and> Path_QuadBezier b c p = p @ [OpQuadTo b c]
   \<and> Path_CubeBezier b c d p = p @ [OpCubicTo b c d]
   \<and> Path_Stop True p = p @ [OpClose]
   \<and> Path_Clear p = []"
  by (simp add: Path_Stop_def Path_Start_def Path_Line_def Path_QuadBezier_def
      Path_CubeBezier_def Path_Clear_def)

section \<open>Properties of the loop of \<^verbatim>\<open>ReadIconStream\<close>\<close>

subsection \<open>The depth of the style stack\<close>

lemma pushStyle_pushes:
  "pushStyle overlay attrs c = Inr (c1, None) \<Longrightarrow> \<exists>s. styleStack c1 = styleStack c @ [s]"
  by (auto simp: pushStyle_def split: list.splits sum.splits)

lemma startElement_pushStyle_depth:
  assumes "keeps_depth rse"
    and "startElement (pushStyle overlay) rse name attrs c = Continue c'"
  shows "length (styleStack c') = Suc (length (styleStack c))"
proof -
  from assms(2) obtain c1 where p: "pushStyle overlay attrs c = Inr (c1, None)"
    and r: "rse name attrs c1 = (c', None)"
    by (auto simp: startElement_def split: sum.splits option.splits prod.splits)
  from pushStyle_pushes [OF p] have "length (styleStack c1) = Suc (length (styleStack c))"
    by auto
  moreover from assms(1) r have "length (styleStack c') = length (styleStack c1)"
    by (metis fst_conv keeps_depth_def)
  ultimately show ?thesis by simp
qed

lemma styleStack_endSwitch [simp]: "styleStack (endSwitch l c) = styleStack c"
  by (simp add: endSwitch_def split: list.splits)

lemma endElement_depth:
  "endElement name c = Continue c' \<Longrightarrow> Suc (length (styleStack c')) = length (styleStack c)"
  by (auto simp: endElement_def split: list.splits)

lemma charData_styleStack:
  "charData s c = Continue c' \<Longrightarrow> styleStack c' = styleStack c"
  by (auto simp: charData_def split: sum.splits if_splits)

lemma step_depth:
  assumes "keeps_depth rse" and "step (pushStyle overlay) rse c t = Continue c'"
  shows "int (length (styleStack c')) = int (length (styleStack c)) + nesting [t]"
proof (cases t)
  case (StartElement name attrs)
  with assms show ?thesis
    using startElement_pushStyle_depth [of rse overlay name attrs c c'] by simp
next
  case (EndElement name)
  with assms show ?thesis using endElement_depth [of name c c'] by simp
next
  case (CharData s)
  with assms show ?thesis using charData_styleStack [of s c c'] by simp
qed (use assms in auto)

lemma nesting_Cons: "nesting (t # ts) = nesting [t] + nesting ts"
  by (cases t) simp_all

lemma keeps_depth_meta: "keeps_depth metaStartElement"
  by (simp add: keeps_depth_def metaStartElement_def)

lemmas example_defs = exampleTokens_def exampleClosing_def newCursor_def newIcon_def
  startElement_def endElement_def endSwitch_def charData_def appendLast_def pushStyle_def
  plainOverlay_def metaStartElement_def

lemma run_example:
  "run (pushStyle plainOverlay) metaStartElement
     (newCursor 0 errMode :: (nat, unit, unit) iconCursor) exampleTokens
   = Continue ((newCursor 0 errMode)\<lparr>styleStack := [0, 1, 1],
       icon := newIcon\<lparr>Titles := [''hi'']\<rparr>, inTitleText := True\<rparr>)"
  by (simp add: example_defs)

text \<open>
  C2.  With \<^verbatim>\<open>pushStyle\<close> as the spec has it and a \<^verbatim>\<open>readStartElement\<close> that returns
  with the stack as deep as it found it: after the loop has handled a list of tokens
  without leaving, the style stack is as deep as before plus the start elements minus
  the end elements of the list; after a list with as many end elements as start elements
  it is as deep as before.  An iteration on a start element, whatever its name, leaves
  one frame more on the stack, and an iteration on an end element one frame less.
\<close>

theorem styleStack_depth_is_nesting:
  assumes "keeps_depth rse" and "run (pushStyle overlay) rse c toks = Continue c'"
  shows "int (length (styleStack c')) = int (length (styleStack c)) + nesting toks
         \<and> (nesting toks = 0 \<longrightarrow> length (styleStack c') = length (styleStack c))
         \<and> (\<forall>name attrs c1. step (pushStyle overlay) rse c (StartElement name attrs) = Continue c1
               \<longrightarrow> length (styleStack c1) = length (styleStack c) + 1)
         \<and> (\<forall>name c1. step (pushStyle overlay) rse c (EndElement name) = Continue c1
               \<longrightarrow> length (styleStack c1) + 1 = length (styleStack c))"
proof -
  have "int (length (styleStack c')) = int (length (styleStack c)) + nesting toks"
    using assms(2)
  proof (induction toks arbitrary: c)
    case Nil
    then show ?case by simp
  next
    case (Cons t ts)
    from Cons.prems obtain c1 where s: "step (pushStyle overlay) rse c t = Continue c1"
      and r: "run (pushStyle overlay) rse c1 ts = Continue c'"
      by (auto split: outcome.splits)
    from step_depth [OF assms(1) s] Cons.IH [OF r] show ?case
      by (simp add: nesting_Cons [of t ts])
  qed
  moreover have "\<forall>name attrs c1.
      step (pushStyle overlay) rse c (StartElement name attrs) = Continue c1
        \<longrightarrow> length (styleStack c1) = length (styleStack c) + 1"
    using startElement_pushStyle_depth [OF assms(1)] by simp
  moreover have "\<forall>name c1. step (pushStyle overlay) rse c (EndElement name) = Continue c1
        \<longrightarrow> length (styleStack c1) + 1 = length (styleStack c)"
    using endElement_depth by auto
  ultimately show ?thesis by simp
qed

theorem styleStack_depth_is_nesting_witness:
  "keeps_depth (metaStartElement :: (nat, unit, unit) readStartElement)
   \<and> (\<exists>c'. run (pushStyle plainOverlay) metaStartElement
              (newCursor 0 WarnErrorMode :: (nat, unit, unit) iconCursor) exampleTokens
            = Continue c'
          \<and> int (length (styleStack c')) = 1 + 2)
   \<and> (\<exists>c'. run (pushStyle plainOverlay) metaStartElement
              (newCursor 0 WarnErrorMode :: (nat, unit, unit) iconCursor)
              (exampleTokens @ exampleClosing)
            = Continue c'
          \<and> length (styleStack c') = 1)"
proof -
  let ?c = "newCursor 0 WarnErrorMode :: (nat, unit, unit) iconCursor"
  have "\<exists>c'. run (pushStyle plainOverlay) metaStartElement ?c exampleTokens = Continue c'"
    by (simp add: run_example)
  then obtain c1 where
    r1: "run (pushStyle plainOverlay) metaStartElement ?c exampleTokens = Continue c1"
    by blast
  have "\<exists>c'. run (pushStyle plainOverlay) metaStartElement ?c (exampleTokens @ exampleClosing)
          = Continue c'"
    by (simp add: example_defs)
  then obtain c2 where
    r2: "run (pushStyle plainOverlay) metaStartElement ?c (exampleTokens @ exampleClosing)
           = Continue c2"
    by blast
  have n1: "nesting exampleTokens = 2" by (simp add: exampleTokens_def)
  have n2: "nesting (exampleTokens @ exampleClosing) = 0"
    by (simp add: exampleTokens_def exampleClosing_def)
  have l: "length (styleStack ?c) = 1" by (simp add: newCursor_def)
  from styleStack_depth_is_nesting [OF keeps_depth_meta r1] n1 l
  have "int (length (styleStack c1)) = 1 + 2" by simp
  moreover from styleStack_depth_is_nesting [OF keeps_depth_meta r2] n2 l
  have "length (styleStack c2) = 1" by simp
  ultimately show ?thesis using keeps_depth_meta r1 r2 by blast
qed

subsection \<open>Errors of the token stream\<close>

lemma loop_run:
  "loop ps rse c (map Inr toks @ rest) =
     (case run ps rse c toks of
        Continue c' \<Rightarrow> loop ps rse c' rest
      | Abort c' err \<Rightarrow> Inr (Some (icon c'), Some err)
      | Panicked p \<Rightarrow> Inl p)"
  by (induction toks arbitrary: c) (auto split: outcome.splits)

text \<open>
  C3.  In every error mode: when the decoder, after tokens that the loop has handled
  without leaving, returns an error other than \<^verbatim>\<open>io.EOF\<close>, \<^verbatim>\<open>ReadIconStream\<close>
  returns the icon as those tokens left it together with that error, whatever the
  decoder would return next; when the decoder returns \<^verbatim>\<open>io.EOF\<close> there, or is at the
  end of its input, \<^verbatim>\<open>ReadIconStream\<close> returns that icon and no error.
\<close>

theorem stream_error_is_returned:
  assumes "run ps rse (newCursor DefaultStyle errMode) toks = Continue c"
  shows "(err \<noteq> io_EOF \<longrightarrow>
            ReadIconStream ps rse DefaultStyle (map Inr toks @ Inl err # rest) errMode
              = Inr (Some (icon c), Some err))
       \<and> ReadIconStream ps rse DefaultStyle (map Inr toks @ Inl io_EOF # rest) errMode
              = Inr (Some (icon c), None)
       \<and> ReadIconStream ps rse DefaultStyle (map Inr toks) errMode
              = Inr (Some (icon c), None)"
  using assms loop_run [of ps rse "newCursor DefaultStyle errMode" toks "Inl err # rest"]
    loop_run [of ps rse "newCursor DefaultStyle errMode" toks "Inl io_EOF # rest"]
    loop_run [of ps rse "newCursor DefaultStyle errMode" toks "[]"]
  by (simp add: ReadIconStream_def)

theorem stream_error_is_returned_witness:
  "ReadIconStream (pushStyle plainOverlay) metaStartElement 0
     (map Inr exampleTokens @ Inl (Error ''XML syntax error'') # map Inr exampleClosing)
     StrictErrorMode
   = Inr (Some ((newIcon :: (nat, unit, unit) SvgIcon)\<lparr>Titles := [''hi'']\<rparr>),
          Some (Error ''XML syntax error''))
   \<and> ReadIconStream (pushStyle plainOverlay) metaStartElement 0
     (map Inr exampleTokens @ Inl io_EOF # map Inr exampleClosing) StrictErrorMode
   = Inr (Some ((newIcon :: (nat, unit, unit) SvgIcon)\<lparr>Titles := [''hi'']\<rparr>), None)"
  using stream_error_is_returned [OF run_example,
      where err = "Error ''XML syntax error''" and rest = "map Inr exampleClosing"]
  by simp

subsection \<open>The document returned\<close>

lemma pushStyle_pushes_one_frame: "pushes_one_frame (pushStyle overlay)"
  by (auto simp: pushes_one_frame_def pushStyle_def text_ok_def split: list.splits sum.splits)

lemma keeps_text_ok_meta: "keeps_text_ok metaStartElement"
  by (simp add: keeps_text_ok_def metaStartElement_def text_ok_def)

lemma startElement_total:
  assumes "pushes_one_frame ps" and "keeps_depth rse" and "keeps_text_ok rse"
    and "styleStack c \<noteq> []" and "text_ok c"
  shows "(\<exists>c'. startElement ps rse name attrs c = Continue c' \<and> text_ok c'
            \<and> length (styleStack c') = Suc (length (styleStack c)))
       \<or> (\<exists>c' err. startElement ps rse name attrs c = Abort c' err)"
proof -
  from assms(1,4,5) obtain c1 e where p: "ps attrs c = Inr (c1, e)"
    and d: "e = None \<longrightarrow> length (styleStack c1) = Suc (length (styleStack c))"
    and t: "text_ok c1"
    unfolding pushes_one_frame_def by blast
  show ?thesis
  proof (cases e)
    case (Some err)
    with p show ?thesis by (simp add: startElement_def)
  next
    case None
    obtain c2 e2 where r: "rse name attrs c1 = (c2, e2)" by (cases "rse name attrs c1")
    from assms(2) r have d2: "length (styleStack c2) = length (styleStack c1)"
      by (metis fst_conv keeps_depth_def)
    from assms(3) r t have t2: "text_ok c2"
      by (metis fst_conv keeps_text_ok_def)
    from p None r d d2 t2 show ?thesis
      by (cases e2) (simp_all add: startElement_def)
  qed
qed

lemma endSwitch_text_ok: "text_ok c \<Longrightarrow> text_ok (endSwitch l c)"
  by (auto simp: endSwitch_def text_ok_def split: list.splits)

lemma endElement_text_ok:
  "endElement name c = Continue c' \<Longrightarrow> text_ok c \<Longrightarrow> text_ok c'"
  using endSwitch_text_ok [of "c\<lparr>styleStack := butlast (styleStack c)\<rparr>" "Local name"]
  by (auto simp: endElement_def text_ok_def split: list.splits)

lemma appendLast_ok: "xs \<noteq> [] \<Longrightarrow> \<exists>ys. appendLast xs s = Inr ys \<and> ys \<noteq> []"
proof -
  assume ne: "xs \<noteq> []"
  then have "appendLast xs s = Inr (xs[length xs - 1 := xs ! (length xs - 1) @ s])"
    by (cases xs) (simp_all add: appendLast_def del: list_update.simps)
  moreover from ne have "xs[length xs - 1 := xs ! (length xs - 1) @ s] \<noteq> []"
    by (simp del: list_update.simps)
  ultimately show ?thesis by blast
qed

lemma charData_total:
  assumes "text_ok c"
  shows "\<exists>c'. charData s c = Continue c' \<and> text_ok c' \<and> styleStack c' = styleStack c"
proof (cases "inTitleText c")
  case True
  with assms have "Titles (icon c) \<noteq> []" by (simp add: text_ok_def)
  from appendLast_ok [OF this, of s] obtain ts where
    ts: "appendLast (Titles (icon c)) s = Inr ts" "ts \<noteq> []" by blast
  show ?thesis
  proof (cases "inDescText c")
    case d: True
    with assms have "Descriptions (icon c) \<noteq> []" by (simp add: text_ok_def)
    from appendLast_ok [OF this, of s] obtain ds where
      "appendLast (Descriptions (icon c)) s = Inr ds" "ds \<noteq> []" by blast
    with True d ts show ?thesis by (simp add: charData_def text_ok_def)
  next
    case False
    with True ts show ?thesis by (simp add: charData_def text_ok_def)
  qed
next
  case False
  show ?thesis
  proof (cases "inDescText c")
    case d: True
    with assms have "Descriptions (icon c) \<noteq> []" by (simp add: text_ok_def)
    from appendLast_ok [OF this, of s] obtain ds where
      "appendLast (Descriptions (icon c)) s = Inr ds" "ds \<noteq> []" by blast
    with False d show ?thesis by (simp add: charData_def text_ok_def)
  next
    case d: False
    with False assms show ?thesis by (simp add: charData_def text_ok_def)
  qed
qed

lemma loop_returns_icon:
  "loop ps rse c stream = Inr (doc, e) \<Longrightarrow> doc \<noteq> None"
  by (induction ps rse c stream rule: loop.induct) (auto split: if_splits outcome.splits)

lemma loop_total:
  assumes "pushes_one_frame ps" and "keeps_depth rse" and "keeps_text_ok rse"
  shows "text_ok c \<Longrightarrow> length (styleStack c) = Suc d \<Longrightarrow> well_nested d (tokens_of stream)
    \<Longrightarrow> \<exists>i e. loop ps rse c stream = Inr (Some i, e)"
proof (induction stream arbitrary: c d)
  case Nil
  then show ?case by simp
next
  case (Cons x stream)
  show ?case
  proof (cases x)
    case (Inl err)
    then show ?thesis by simp
  next
    case (Inr t)
    show ?thesis
    proof (cases t)
      case (StartElement name attrs)
      from Cons.prems(2) have ne: "styleStack c \<noteq> []" by auto
      from Cons.prems(3) Inr StartElement have 3: "well_nested (Suc d) (tokens_of stream)"
        by simp
      from startElement_total [OF assms ne Cons.prems(1), of name attrs]
      show ?thesis
      proof
        assume "\<exists>c'. startElement ps rse name attrs c = Continue c' \<and> text_ok c'
            \<and> length (styleStack c') = Suc (length (styleStack c))"
        then obtain c' where s: "startElement ps rse name attrs c = Continue c'"
          and 1: "text_ok c'" and "length (styleStack c') = Suc (length (styleStack c))"
          by blast
        with Cons.prems(2) have 2: "length (styleStack c') = Suc (Suc d)" by simp
        from Cons.IH [OF 1 2 3] Inr StartElement s show ?thesis by simp
      next
        assume "\<exists>c' err. startElement ps rse name attrs c = Abort c' err"
        with Inr StartElement show ?thesis by auto
      qed
    next
      case (EndElement name)
      from Cons.prems(3) Inr EndElement obtain d' where d: "d = Suc d'"
        and 3: "well_nested d' (tokens_of stream)"
        by (cases d) auto
      from Cons.prems(2) d obtain s ss where ss: "styleStack c = s # ss"
        by (cases "styleStack c") auto
      then obtain c' where e: "endElement name c = Continue c'"
        by (simp add: endElement_def)
      from endElement_text_ok [OF e Cons.prems(1)] have 1: "text_ok c'" .
      from endElement_depth [OF e] Cons.prems(2) d have 2: "length (styleStack c') = Suc d'"
        by simp
      from Cons.IH [OF 1 2 3] Inr EndElement e show ?thesis by simp
    next
      case (CharData s)
      from charData_total [OF Cons.prems(1), of s] obtain c' where
        e: "charData s c = Continue c'" and 1: "text_ok c'" and "styleStack c' = styleStack c"
        by blast
      with Cons.prems(2) have 2: "length (styleStack c') = Suc d" by simp
      from Cons.prems(3) Inr CharData have 3: "well_nested d (tokens_of stream)" by simp
      from Cons.IH [OF 1 2 3] Inr CharData e show ?thesis by simp
    next
      case (Comment s)
      with Cons.prems Inr Cons.IH [of c d] show ?thesis by simp
    next
      case (ProcInst s1 s2)
      with Cons.prems Inr Cons.IH [of c d] show ?thesis by simp
    next
      case (Directive s)
      with Cons.prems Inr Cons.IH [of c d] show ?thesis by simp
    qed
  qed
qed

lemma text_ok_newCursor: "text_ok (newCursor DefaultStyle errMode)"
  by (simp add: text_ok_def newCursor_def)

text \<open>
  C4, amended.  In every error mode, \<^verbatim>\<open>ReadIconStream\<close> never returns a nil icon; for
  every properly nested sequence of tokens, with methods \<^verbatim>\<open>pushStyle\<close> and
  \<^verbatim>\<open>readStartElement\<close> that meet the three conditions above, it does return: an icon
  and its error value.  \<^verbatim>\<open>ReadIcon\<close> returns what \<^verbatim>\<open>ReadIconStream\<close> returns on the
  content of the file when the file can be opened, and a nil icon together with the
  error of \<^verbatim>\<open>os.Open\<close> when it cannot.
\<close>

theorem ReadIcon_document:
  assumes "pushes_one_frame ps" and "keeps_depth rse" and "keeps_text_ok rse"
  shows "(\<forall>e. ReadIconStream ps rse DefaultStyle stream errMode \<noteq> Inr (None, e))
       \<and> (well_nested 0 (tokens_of stream) \<longrightarrow>
            (\<exists>i e. ReadIconStream ps rse DefaultStyle stream errMode = Inr (Some i, e)))
       \<and> (fs iconFile = Inr stream \<longrightarrow>
            ReadIcon ps rse DefaultStyle fs iconFile errMode
              = ReadIconStream ps rse DefaultStyle stream errMode)
       \<and> (fs iconFile = Inl errf \<longrightarrow>
            ReadIcon ps rse DefaultStyle fs iconFile errMode = Inr (None, Some errf))"
proof -
  have 1: "\<forall>e. ReadIconStream ps rse DefaultStyle stream errMode \<noteq> Inr (None, e)"
    using loop_returns_icon [of ps rse "newCursor DefaultStyle errMode" stream None]
    by (auto simp: ReadIconStream_def)
  have 2: "well_nested 0 (tokens_of stream) \<longrightarrow>
            (\<exists>i e. ReadIconStream ps rse DefaultStyle stream errMode = Inr (Some i, e))"
    using loop_total [OF assms text_ok_newCursor, of DefaultStyle errMode 0 stream]
    by (simp add: ReadIconStream_def newCursor_def)
  show ?thesis using 1 2 by (simp add: ReadIcon_def)
qed

theorem ReadIcon_document_witness:
  "pushes_one_frame (pushStyle plainOverlay :: (nat, unit, unit) pushStyle)
   \<and> keeps_depth (metaStartElement :: (nat, unit, unit) readStartElement)
   \<and> keeps_text_ok (metaStartElement :: (nat, unit, unit) readStartElement)
   \<and> well_nested 0 (tokens_of (map Inr (exampleTokens @ exampleClosing)))
   \<and> (\<exists>i e. ReadIconStream (pushStyle plainOverlay)
         (metaStartElement :: (nat, unit, unit) readStartElement)
         0 (map Inr (exampleTokens @ exampleClosing)) WarnErrorMode = Inr (Some i, e))
   \<and> ReadIcon (pushStyle plainOverlay) (metaStartElement :: (nat, unit, unit) readStartElement)
         0 exampleFS ''icon.svg'' WarnErrorMode
       = ReadIconStream (pushStyle plainOverlay) metaStartElement 0
           (map Inr (exampleTokens @ exampleClosing)) WarnErrorMode
   \<and> ReadIcon (pushStyle plainOverlay) (metaStartElement :: (nat, unit, unit) readStartElement)
         0 exampleFS ''missing.svg'' WarnErrorMode
       = Inr (None, Some (Error ''open: no such file or directory''))"
proof -
  let ?ps = "pushStyle plainOverlay :: (nat, unit, unit) pushStyle"
  let ?rse = "metaStartElement :: (nat, unit, unit) readStartElement"
  let ?stream = "map Inr (exampleTokens @ exampleClosing)"
  let ?errf = "Error ''open: no such file or directory''"
  have w: "well_nested 0 (tokens_of ?stream)"
    by (simp add: exampleTokens_def exampleClosing_def)
  have f1: "exampleFS ''icon.svg'' = Inr ?stream"
    by (simp add: exampleFS_def)
  have f2: "exampleFS ''missing.svg'' = Inl ?errf"
    by (simp add: exampleFS_def)
  have 1: "(\<forall>e. ReadIconStream ?ps ?rse 0 ?stream WarnErrorMode \<noteq> Inr (None, e))
       \<and> (well_nested 0 (tokens_of ?stream) \<longrightarrow>
            (\<exists>i e. ReadIconStream ?ps ?rse 0 ?stream WarnErrorMode = Inr (Some i, e)))
       \<and> (exampleFS ''icon.svg'' = Inr ?stream \<longrightarrow>
            ReadIcon ?ps ?rse 0 exampleFS ''icon.svg'' WarnErrorMode
              = ReadIconStream ?ps ?rse 0 ?stream WarnErrorMode)
       \<and> (exampleFS ''icon.svg'' = Inl ?errf \<longrightarrow>
            ReadIcon ?ps ?rse 0 exampleFS ''icon.svg'' WarnErrorMode = Inr (None, Some ?errf))"
    by (rule ReadIcon_document [OF pushStyle_pushes_one_frame keeps_depth_meta keeps_text_ok_meta])
  have 2: "(\<forall>e. ReadIconStream ?ps ?rse 0 ?stream WarnErrorMode \<noteq> Inr (None, e))
       \<and> (well_nested 0 (tokens_of ?stream) \<longrightarrow>
            (\<exists>i e. ReadIconStream ?ps ?rse 0 ?stream WarnErrorMode = Inr (Some i, e)))
       \<and> (exampleFS ''missing.svg'' = Inr ?stream \<longrightarrow>
            ReadIcon ?ps ?rse 0 exampleFS ''missing.svg'' WarnErrorMode
              = ReadIconStream ?ps ?rse 0 ?stream WarnErrorMode)
       \<and> (exampleFS ''missing.svg'' = Inl ?errf \<longrightarrow>
            ReadIcon ?ps ?rse 0 exampleFS ''missing.svg'' WarnErrorMode = Inr (None, Some ?errf))"
    by (rule ReadIcon_document [OF pushStyle_pushes_one_frame keeps_depth_meta keeps_text_ok_meta])
  have 3: "pushes_one_frame ?ps" by (rule pushStyle_pushes_one_frame)
  have 4: "keeps_depth ?rse" by (rule keeps_depth_meta)
  have 5: "keeps_text_ok ?rse" by (rule keeps_text_ok_meta)
  from 1 2 3 4 5 w f1 f2 show ?thesis by blast
qed

theorem ReadIcon_missing_file_nil_document:
  "\<not> (\<exists>i e. ReadIcon (pushStyle plainOverlay)
         (metaStartElement :: (nat, unit, unit) readStartElement)
         0 exampleFS ''missing.svg'' WarnErrorMode = Inr (Some i, e))"
  by (simp add: ReadIcon_def exampleFS_def)

subsection \<open>The end of a definitions section\<close>

text \<open>
  C5.  On the end element of \<open>defs\<close>, with a style on the stack to pop: when the
  accumulated sequence \<^verbatim>\<open>currentDef\<close> is not empty, it is stored in the mapping
  \<^verbatim>\<open>defs\<close> of the icon under the identifier of its first entry, nothing else of the icon
  changes, and the accumulator is emptied; when it is empty, the icon, and with it the
  mapping, stays as it is.  In both cases the flag \<^verbatim>\<open>inDefs\<close> is cleared, and besides
  the style popped nothing else of the cursor changes.
\<close>

theorem defs_end_commits:
  assumes "styleStack c \<noteq> []"
  shows "\<exists>c'. step ps rse c (EndElement (Name space ''defs'')) = Continue c'
     \<and> (currentDef c \<noteq> [] \<longrightarrow>
          icon c' = (icon c)\<lparr>defs := (defs (icon c))(ID (hd (currentDef c)) \<mapsto> currentDef c)\<rparr>)
     \<and> (currentDef c = [] \<longrightarrow> icon c' = icon c)
     \<and> currentDef c' = []
     \<and> inDefs c' = False
     \<and> c' = c\<lparr>styleStack := butlast (styleStack c), icon := icon c', currentDef := [],
               inDefs := False\<rparr>"
  using assms
  by (cases "styleStack c"; cases "currentDef c") (simp_all add: endElement_def endSwitch_def)

theorem defs_end_commits_witness:
  "styleStack ((newCursor 0 WarnErrorMode :: (nat, unit, unit) iconCursor)
      \<lparr>inDefs := True, currentDef := [exampleDef]\<rparr>) \<noteq> []
   \<and> (\<exists>c'. step (pushStyle plainOverlay) metaStartElement
          ((newCursor 0 WarnErrorMode :: (nat, unit, unit) iconCursor)
            \<lparr>inDefs := True, currentDef := [exampleDef]\<rparr>)
          (EndElement (Name [] ''defs'')) = Continue c'
        \<and> defs (icon c') ''arrow'' = Some [exampleDef]
        \<and> currentDef c' = [] \<and> inDefs c' = False)
   \<and> (\<exists>c'. step (pushStyle plainOverlay) metaStartElement
          ((newCursor 0 WarnErrorMode :: (nat, unit, unit) iconCursor)\<lparr>inDefs := True\<rparr>)
          (EndElement (Name [] ''defs'')) = Continue c'
        \<and> icon c' = newIcon \<and> currentDef c' = [] \<and> inDefs c' = False)"
proof -
  let ?c = "(newCursor 0 WarnErrorMode :: (nat, unit, unit) iconCursor)
      \<lparr>inDefs := True, currentDef := [exampleDef]\<rparr>"
  let ?d = "(newCursor 0 WarnErrorMode :: (nat, unit, unit) iconCursor)\<lparr>inDefs := True\<rparr>"
  have 1: "styleStack ?c \<noteq> []" by (simp add: newCursor_def)
  have 2: "styleStack ?d \<noteq> []" by (simp add: newCursor_def)
  from defs_end_commits [OF 1, of "pushStyle plainOverlay" metaStartElement "[]"]
    defs_end_commits [OF 2, of "pushStyle plainOverlay" metaStartElement "[]"] 1
  show ?thesis by (auto simp: newCursor_def exampleDef_def)
qed

section \<open>Properties of the raster backend\<close>

text \<open>
  C7.  For a driver built by \<^verbatim>\<open>NewDriver\<close> and every pair of booleans,
  \<^verbatim>\<open>SetupDrawers\<close> returns a filler that is not nil exactly when \<^verbatim>\<open>willFill\<close> is true
  and a stroker that is not nil exactly when \<^verbatim>\<open>willStroke\<close> is true; and so it is for
  any driver whenever the method returns.  (On a driver whose dasher is nil the method
  panics when \<^verbatim>\<open>willFill\<close> is true.)
\<close>

theorem SetupDrawers_handles:
  "(\<exists>f s. SetupDrawers (NewDriver NewDasher width height scanner) willFill willStroke
         = Inr (f, s)
       \<and> (f \<noteq> None) = willFill \<and> (s \<noteq> None) = willStroke)
   \<and> (\<forall>f s. SetupDrawers rd willFill willStroke = Inr (f, s)
         \<longrightarrow> (f \<noteq> None) = willFill \<and> (s \<noteq> None) = willStroke)"
  by (auto simp: SetupDrawers_def NewDriver_def split: option.splits if_splits)

theorem SetupDrawers_handles_witness:
  "SetupDrawers \<lparr>dasher = None\<rparr> False True = Inr (None, Some (stroker None))
   \<and> SetupDrawers (NewDriver (\<lambda>w h sc. 7) 24 24 ()) True False
       = Inr (Some (filler (Filler_of_Dasher 7)), None)
   \<and> (\<exists>f s. SetupDrawers (NewDriver (\<lambda>w h sc. 7) 24 24 ()) True True = Inr (f, s)
         \<and> f \<noteq> None \<and> s \<noteq> None)"
  using SetupDrawers_handles [of "\<lambda>w h sc. 7" 24 24 "()" True True "\<lparr>dasher = None\<rparr>"]
    SetupDrawers_handles [of "\<lambda>w h sc. 7" 24 24 "()" False True "\<lparr>dasher = None\<rparr>"]
    SetupDrawers_handles [of "\<lambda>w h sc. 7" 24 24 "()" True False
      "NewDriver (\<lambda>w h sc. 7) 24 24 ()"]
  by (simp add: SetupDrawers_def NewDriver_def)

text \<open>
  C8.  For a gradient whose units are \<^verbatim>\<open>ObjectBoundingBox\<close>, the color function set on
  the scanner is made from the gradient with its bounds replaced by those of the
  scanner's path extent: the origin is the minimum corner divided by 64, the width and
  the height are the side lengths divided by 64.  For a gradient in user space it is made
  from the gradient with the bounds it has.  A plain color is set with the opacity
  applied.
\<close>

theorem setColorFromPattern_bounds:
  "(Units g = ObjectBoundingBox \<longrightarrow>
      setColorFromPattern S (GradientPattern g) opacity scanner
        = SetColor S (GetColorFunction
            (toRasterxGradient (g\<lparr>GBounds := extentBounds (GetPathExtent S scanner)\<rparr>)) opacity) scanner
      \<and> rx_Bounds (toRasterxGradient (g\<lparr>GBounds := extentBounds (GetPathExtent S scanner)\<rparr>))
        = extentBounds (GetPathExtent S scanner))
   \<and> (Units g = UserSpaceOnUse \<longrightarrow>
      setColorFromPattern S (GradientPattern g) opacity scanner
        = SetColor S (GetColorFunction (toRasterxGradient g) opacity) scanner
      \<and> rx_Bounds (toRasterxGradient g) = GBounds g)
   \<and> setColorFromPattern S (PlainColor col) opacity scanner
        = SetColor S (ApplyOpacity col opacity) scanner"
  by (simp add: setColorFromPattern_def extentBounds_def to_float64_def toRasterxGradient_def
      Let_def diff_divide_distrib)

theorem setColorFromPattern_bounds_witness:
  "Units exampleGradient = ObjectBoundingBox
   \<and> setColorFromPattern exampleScanner (GradientPattern exampleGradient) 1 (exampleExtent, None)
       = (exampleExtent, Some (GetColorFunction
           (toRasterxGradient (exampleGradient\<lparr>GBounds := \<lparr>BX = 10, BY = 10, BW = 10, BH = 20\<rparr>\<rparr>)) 1))
   \<and> Units (exampleGradient\<lparr>Units := UserSpaceOnUse\<rparr>) = UserSpaceOnUse
   \<and> setColorFromPattern exampleScanner
         (GradientPattern (exampleGradient\<lparr>Units := UserSpaceOnUse\<rparr>)) 1 (exampleExtent, None)
       = (exampleExtent, Some (GetColorFunction
           (toRasterxGradient (exampleGradient\<lparr>Units := UserSpaceOnUse\<rparr>)) 1))
   \<and> rx_Bounds (toRasterxGradient (exampleGradient\<lparr>Units := UserSpaceOnUse\<rparr>))
       = \<lparr>BX = 0, BY = 0, BW = 1, BH = 1\<rparr>"
  using setColorFromPattern_bounds [of exampleGradient exampleScanner 1 "(exampleExtent, None)"]
    setColorFromPattern_bounds [of "exampleGradient\<lparr>Units := UserSpaceOnUse\<rparr>" exampleScanner 1
      "(exampleExtent, None)"]
  by (simp add: exampleGradient_def exampleScanner_def exampleExtent_def extentBounds_def)

end
